theory Spec2Isabelle
  imports Main
begin

section \<open>The checkpoint sweep driver (save.cpp)\<close>

text \<open>
  The program is one function, \<^verbatim>\<open>main\<close>:
  \<^verbatim>\<open>
  signal(SIGINT, sigint);
  fstream file;
  for(int i = 1000;  i<=47000; i+=1000){
      file.open("./log/20210110_190115_BreakoutNoFrameskip-v4/weights/checkpoint", ios::out | ios::trunc);
      file << "model_checkpoint_path: \"episode_";
      file << i;
      file << "\" \n";
      file << "all_model_checkpoint_paths: \"episode_";
      file << i;
      file << "\"";
      file.close();
      string cmd = ("python main.py --env BreakoutNoFrameskip-v4 --save " + to_string(i));
      int a = system(cmd.c_str());
      cout << i << endl;
  }
  return 0;
  \<close>
  Everything it does is an effect on its surroundings, so the model passes an explicit
  state: the file system, the stream object \<^verbatim>\<open>file\<close>, the standard output, and a log of the
  library calls in the order they are made. The command run by \<^verbatim>\<open>system\<close> is a parameter
  of the model: it may change the file system in any way, exit with any status, or
  never terminate.
\<close>

subsection \<open>The surroundings\<close>

type_synonym path = string

type_synonym file_id = nat

text \<open>
  The file system as the driver sees it. A file has an identity of its own, and several
  paths may name one file (\<^verbatim>\<open>./log/x\<close> and \<^verbatim>\<open>log/x\<close>, a link): \<open>denotes\<close> gives the file
  a path names, whether or not it exists yet. \<open>files\<close> gives the contents of each file
  that exists. \<open>writable\<close> says whether a path can be opened for writing now (its
  directory exists, permissions allow it); \<^verbatim>\<open>fstream::open\<close> creates the file and never a
  directory. \<open>room\<close> gives the number of bytes that can be written to a file before a
  write fails (disk full, file size limit), \<open>None\<close> when there is no limit.
\<close>

record world =
  denotes :: "path \<Rightarrow> file_id"
  files :: "file_id \<Rightarrow> string option"
  writable :: "path \<Rightarrow> bool"
  room :: "file_id \<Rightarrow> nat option"

text \<open>Reading the file at a path.\<close>

definition contents :: "world \<Rightarrow> path \<Rightarrow> string option" where
  "contents w p = files w (denotes w p)"

text \<open>
  The object \<^verbatim>\<open>fstream file\<close>: the file it is attached to, if any; whether its state is
  other than \<^verbatim>\<open>goodbit\<close> (\<^verbatim>\<open>failbit\<close> or \<^verbatim>\<open>badbit\<close> set); and the characters
  inserted and not yet written out to the file.
\<close>

record fstream =
  handle :: "file_id option"
  bad :: bool
  pending :: string

text \<open>The library calls of \<^verbatim>\<open>main\<close>, as they are logged.\<close>

datatype event =
    Handler_installed
  | Open_trunc path
  | Put string
  | Close
  | Launch string
  | Exited string
  | Print string

text \<open>
  The state of the driver. \<open>stop_requested\<close> is the flag of the interrupt handler (see
  \<open>sigint\<close> below); \<open>trace\<close> and \<open>launched\<close> are logs kept for the statements only:
  the calls made so far, and for each command handed to \<^verbatim>\<open>system\<close> the file system
  and the stream as they were at that moment.
\<close>

record driver =
  fs :: world
  file_stream :: fstream
  cout :: string
  stop_requested :: bool
  trace :: "event list"
  launched :: "(string \<times> world \<times> fstream) list"

text \<open>
  What running a command does: \<open>None\<close> when it never terminates, otherwise its exit
  status and the file system it leaves. \<open>interrupt E cmd\<close> says whether a user
  interrupt reaches the driver while \<open>cmd\<close> runs. (Where \<^verbatim>\<open>system\<close> ignores the
  interrupt signal in the caller while the command runs, \<open>interrupt E\<close> is false
  everywhere; the statements below hold for every \<open>E\<close>.)
\<close>

record env =
  child :: "string \<Rightarrow> world \<Rightarrow> (int \<times> world) option"
  interrupt :: "string \<Rightarrow> bool"

definition log :: "event \<Rightarrow> driver \<Rightarrow> driver" where
  "log e d = d\<lparr>trace := trace d @ [e]\<rparr>"

subsection \<open>Decimal rendering\<close>

text \<open>
  \<^verbatim>\<open>to_string(int)\<close> and \<^verbatim>\<open>operator<<(int)\<close> on a stream with default flags both
  render in decimal, no padding, with a minus sign for negative values.
\<close>

definition digit :: "nat \<Rightarrow> char" where
  "digit n = ''0123456789'' ! n"

fun digits :: "nat \<Rightarrow> string" where
  "digits n = (if n < 10 then [digit n] else digits (n div 10) @ [digit (n mod 10)])"

declare digits.simps [simp del]

definition to_string :: "int \<Rightarrow> string" where
  "to_string i = (if i < 0 then CHR ''-'' # digits (nat (- i)) else digits (nat i))"

subsection \<open>The library calls\<close>

definition checkpoint_path :: path where
  "checkpoint_path = ''./log/20210110_190115_BreakoutNoFrameskip-v4/weights/checkpoint''"

text \<open>
  \<^verbatim>\<open>file.open(p, ios::out | ios::trunc)\<close>: fails (setting \<^verbatim>\<open>failbit\<close>) when the stream is
  already open or the file cannot be opened; otherwise the file is created or
  truncated to length zero and the stream's state is cleared (as \<^verbatim>\<open>open\<close> does since
  C++11).
\<close>

definition fstream_open :: "path \<Rightarrow> driver \<Rightarrow> driver" where
  "fstream_open p d = log (Open_trunc p)
     (if handle (file_stream d) \<noteq> None then d\<lparr>file_stream := (file_stream d)\<lparr>bad := True\<rparr>\<rparr>
      else if writable (fs d) p then
        d\<lparr>fs := (fs d)\<lparr>files := (files (fs d))(denotes (fs d) p \<mapsto> [])\<rparr>,
          file_stream := \<lparr>handle = Some (denotes (fs d) p), bad = False, pending = []\<rparr>\<rparr>
      else d\<lparr>file_stream := (file_stream d)\<lparr>bad := True\<rparr>\<rparr>)"

text \<open>
  \<^verbatim>\<open>file << s\<close>: does nothing on a stream whose state is not good; on a good stream
  with no file attached the write fails and \<^verbatim>\<open>badbit\<close> is set; otherwise the
  characters go to the stream's buffer. (The text of one pass is some eighty characters,
  far below the size of the buffer, so nothing is written out before \<^verbatim>\<open>close\<close>.)
\<close>

definition fstream_put :: "string \<Rightarrow> driver \<Rightarrow> driver" where
  "fstream_put s d = log (Put s)
     (if bad (file_stream d) then d
      else if handle (file_stream d) = None then d\<lparr>file_stream := (file_stream d)\<lparr>bad := True\<rparr>\<rparr>
      else d\<lparr>file_stream := (file_stream d)\<lparr>pending := pending (file_stream d) @ s\<rparr>\<rparr>)"

text \<open>
  What reaches a file with room \<open>r\<close> when the characters \<open>s\<close> are written to it, and
  whether all of them do.
\<close>

definition landed :: "nat option \<Rightarrow> string \<Rightarrow> string" where
  "landed r s = (case r of None \<Rightarrow> s | Some n \<Rightarrow> take n s)"

definition fits :: "nat option \<Rightarrow> string \<Rightarrow> bool" where
  "fits r s = (case r of None \<Rightarrow> True | Some n \<Rightarrow> length s \<le> n)"

text \<open>
  \<^verbatim>\<open>file.close()\<close>: on a stream that is not open it sets \<^verbatim>\<open>failbit\<close>. Otherwise it writes
  the buffer out to the file and detaches the file. The write can fail after \<^verbatim>\<open>open\<close> has
  truncated the file: then only the characters the file has room for reach it (none, if
  there is no room at all), \<^verbatim>\<open>failbit\<close> is set, and the file is detached all the same.
\<close>

definition fstream_close :: "driver \<Rightarrow> driver" where
  "fstream_close d = log Close
     (case handle (file_stream d) of
        None \<Rightarrow> d\<lparr>file_stream := (file_stream d)\<lparr>bad := True\<rparr>\<rparr>
      | Some x \<Rightarrow>
          d\<lparr>fs := (fs d)\<lparr>files := (files (fs d))
                 (x \<mapsto> (case files (fs d) x of None \<Rightarrow> [] | Some c \<Rightarrow> c) @
                        landed (room (fs d) x) (pending (file_stream d)))\<rparr>,
            file_stream := \<lparr>handle = None,
                             bad = (bad (file_stream d) \<or>
                                    \<not> fits (room (fs d) x) (pending (file_stream d))),
                             pending = []\<rparr>\<rparr>)"

text \<open>
  Modelled from the spec: the handler \<^verbatim>\<open>sigint\<close> that \<^verbatim>\<open>main\<close> installs is defined nowhere
  in the repository; section 4.4 of the specification says that it records a stop
  request.
\<close>

definition sigint :: "driver \<Rightarrow> driver" where
  "sigint d = d\<lparr>stop_requested := True\<rparr>"

text \<open>\<^verbatim>\<open>signal(SIGINT, sigint)\<close>: from here on a user interrupt runs \<open>sigint\<close>.\<close>

definition signal_SIGINT :: "driver \<Rightarrow> driver" where
  "signal_SIGINT d = log Handler_installed d"

definition deliver :: "bool \<Rightarrow> driver \<Rightarrow> driver" where
  "deliver b d = (if b then sigint d else d)"

text \<open>
  \<^verbatim>\<open>system(cmd)\<close>: starts the command and waits for it. The result is \<open>None\<close> when the
  command never terminates (the call does not return), otherwise the exit status.
\<close>

definition system :: "env \<Rightarrow> string \<Rightarrow> driver \<Rightarrow> driver \<times> int option" where
  "system E cmd d =
     (let d1 = (log (Launch cmd) d)\<lparr>launched := launched d @ [(cmd, fs d, file_stream d)]\<rparr> in
      case child E cmd (fs d1) of
        None \<Rightarrow> (d1, None)
      | Some (a, w) \<Rightarrow> (deliver (interrupt E cmd) (log (Exited cmd) (d1\<lparr>fs := w\<rparr>)), Some a))"

text \<open>\<^verbatim>\<open>cout << i << endl\<close>.\<close>

definition cout_line :: "int \<Rightarrow> driver \<Rightarrow> driver" where
  "cout_line i d = (log (Print (to_string i @ ''\<newline>'')) d)\<lparr>cout := cout d @ to_string i @ ''\<newline>''\<rparr>"

subsection \<open>The loop and \<^verbatim>\<open>main\<close>\<close>

text \<open>
  One pass through the loop body with the loop variable \<open>i\<close>. The second component is
  \<open>False\<close> when \<^verbatim>\<open>system\<close> never returns, so that the program stays in this pass
  for ever. The exit status \<open>a\<close> is bound and never read, as in the source.
\<close>

definition body :: "env \<Rightarrow> int \<Rightarrow> driver \<Rightarrow> driver \<times> bool" where
  \<open>body E i d0 =
     (let d1 = fstream_open checkpoint_path d0;
          d2 = fstream_put ''model_checkpoint_path: "episode_'' d1;
          d3 = fstream_put (to_string i) d2;
          d4 = fstream_put ''" \<newline>'' d3;
          d5 = fstream_put ''all_model_checkpoint_paths: "episode_'' d4;
          d6 = fstream_put (to_string i) d5;
          d7 = fstream_put ''"'' d6;
          d8 = fstream_close d7;
          cmd = ''python main.py --env BreakoutNoFrameskip-v4 --save '' @ to_string i
      in case system E cmd d8 of
           (d9, None) \<Rightarrow> (d9, False)
         | (d9, Some a) \<Rightarrow> (cout_line i d9, True))\<close>

text \<open>
  \<^verbatim>\<open>for(int i = 1000; i<=47000; i+=1000)\<close> around a body \<open>f\<close>. The result says whether the
  loop ran to its end. The loop variable is a 32-bit \<^verbatim>\<open>int\<close> in the source and an
  unbounded integer here: it never exceeds 48000 (lemma \<open>loop_values_small\<close>).
\<close>

function sweep :: "(int \<Rightarrow> 's \<Rightarrow> 's \<times> bool) \<Rightarrow> int \<Rightarrow> 's \<Rightarrow> 's \<times> bool" where
  "sweep f i d =
     (if i \<le> 47000 then
        (case f i d of
           (d', True) \<Rightarrow> sweep f (i + 1000) d'
         | (d', False) \<Rightarrow> (d', False))
      else (d, True))"
  by pat_completeness auto
termination
  by (relation "measure (\<lambda>(f, i, d). nat (48000 - i))") auto

declare sweep.simps [simp del]

text \<open>
  How \<^verbatim>\<open>main\<close> ends: it returns a status, or it waits for ever for a child.
\<close>

datatype outcome = Returned int | Blocked

text \<open>
  The state on entry: the stream \<^verbatim>\<open>fstream file\<close> is default-constructed (no file
  attached, state good), nothing has been printed.
\<close>

definition start :: "world \<Rightarrow> driver" where
  "start w = \<lparr>fs = w, file_stream = \<lparr>handle = None, bad = False, pending = []\<rparr>, cout = [],
              stop_requested = False, trace = [], launched = []\<rparr>"

text \<open>
  \<^verbatim>\<open>main\<close>, started in the file system \<open>w\<close>: the final state (or the state in which it
  waits for ever) and the status it returns.
\<close>

definition main :: "env \<Rightarrow> world \<Rightarrow> driver \<times> outcome" where
  "main E w =
     (case sweep (body E) 1000 (signal_SIGINT (start w)) of
        (d, True) \<Rightarrow> (d, Returned 0)
      | (d, False) \<Rightarrow> (d, Blocked))"

section \<open>Notions used in the statements\<close>

text \<open>
  The body \<open>f\<close> run on the indices of a list, one after the other, stopping where a pass
  does not return.
\<close>

fun run_list :: "(int \<Rightarrow> 's \<Rightarrow> 's \<times> bool) \<Rightarrow> int list \<Rightarrow> 's \<Rightarrow> 's \<times> bool" where
  "run_list f [] d = (d, True)"
| "run_list f (i # js) d =
     (case f i d of
        (d', True) \<Rightarrow> run_list f js d'
      | (d', False) \<Rightarrow> (d', False))"

text \<open>
  The values the loop variable takes, by the loop header alone: from \<open>i\<close> in steps of
  1000 while \<open>i \<le> 47000\<close>.
\<close>

function loop_values :: "int \<Rightarrow> int list" where
  "loop_values i = (if i \<le> 47000 then i # loop_values (i + 1000) else [])"
  by pat_completeness auto
termination
  by (relation "measure (\<lambda>i. nat (48000 - i))") auto

declare loop_values.simps [simp del]

text \<open>
  The arithmetic progression 1000, 2000, ..., 47000.
\<close>

definition indices :: "int list" where
  "indices = map (\<lambda>k. 1000 * int k) [1..<48]"

text \<open>
  The string handed to \<^verbatim>\<open>system\<close> in the pass for index \<open>i\<close>. \<^verbatim>\<open>system\<close> passes it to the
  shell, which splits it at the spaces into the words \<^verbatim>\<open>python\<close>, \<^verbatim>\<open>main.py\<close>,
  \<^verbatim>\<open>--env\<close>, \<^verbatim>\<open>BreakoutNoFrameskip-v4\<close>, \<^verbatim>\<open>--save\<close> and the index.
\<close>

definition cmd :: "int \<Rightarrow> string" where
  "cmd i = ''python main.py --env BreakoutNoFrameskip-v4 --save '' @ to_string i"

text \<open>
  The characters the six insertions of one pass put into the stream, in order. Note the
  space between the closing quote of the first line and the newline, from the literal
  \<^verbatim>\<open>"\" \n"\<close> of the source.
\<close>

definition pointer_text :: "int \<Rightarrow> string" where
  \<open>pointer_text i =
     ''model_checkpoint_path: "episode_'' @ to_string i @ ''" \<newline>'' @
     ''all_model_checkpoint_paths: "episode_'' @ to_string i @ ''"''\<close>

text \<open>
  The library calls of one pass up to and including the start of the child, and the calls
  that follow once the child has exited.
\<close>

definition calls :: "int \<Rightarrow> event list" where
  \<open>calls i =
     [Open_trunc checkpoint_path,
      Put ''model_checkpoint_path: "episode_'', Put (to_string i), Put ''" \<newline>'',
      Put ''all_model_checkpoint_paths: "episode_'', Put (to_string i), Put ''"'',
      Close,
      Launch (cmd i)]\<close>

definition after :: "int \<Rightarrow> event list" where
  "after i = [Exited (cmd i), Print (to_string i @ ''\<newline>'')]"

text \<open>
  The part of the body before \<^verbatim>\<open>system\<close>: open, six insertions, close.
\<close>

definition prepare :: "int \<Rightarrow> driver \<Rightarrow> driver" where
  \<open>prepare i d =
     fstream_close (fstream_put ''"'' (fstream_put (to_string i)
       (fstream_put ''all_model_checkpoint_paths: "episode_'' (fstream_put ''" \<newline>''
         (fstream_put (to_string i) (fstream_put ''model_checkpoint_path: "episode_''
           (fstream_open checkpoint_path d)))))))\<close>

text \<open>
  The stream between two passes: no file attached, nothing in its buffer.
\<close>

definition idle :: "driver \<Rightarrow> bool" where
  "idle d = (handle (file_stream d) = None \<and> pending (file_stream d) = [])"

text \<open>
  What one pass, begun with an idle stream, does to the file system before it starts its
  child, and the stream it leaves. If the path can be opened, the file it names is
  replaced by what the flush writes (the whole \<open>pointer_text i\<close> when the file has room
  for it); if not, nothing changes. This is the only file touched, and \<open>denotes\<close>,
  \<open>writable\<close> and \<open>room\<close> stay as they are. The stream has failed exactly when the open or
  the flush did.
\<close>

definition pointer_written :: "int \<Rightarrow> world \<Rightarrow> world" where
  "pointer_written i w =
     (if writable w checkpoint_path
      then w\<lparr>files := (files w)
               (denotes w checkpoint_path \<mapsto>
                  landed (room w (denotes w checkpoint_path)) (pointer_text i))\<rparr>
      else w)"

definition closed_stream :: "int \<Rightarrow> world \<Rightarrow> fstream" where
  "closed_stream i w =
     \<lparr>handle = None,
      bad = (\<not> writable w checkpoint_path \<or>
             \<not> fits (room w (denotes w checkpoint_path)) (pointer_text i)),
      pending = []\<rparr>"

text \<open>
  The number of passes of \<open>run_list\<close> that run to their end.
\<close>

fun rounds :: "(int \<Rightarrow> 's \<Rightarrow> 's \<times> bool) \<Rightarrow> int list \<Rightarrow> 's \<Rightarrow> nat" where
  "rounds f [] d = 0"
| "rounds f (i # js) d =
     (case f i d of
        (d', True) \<Rightarrow> Suc (rounds f js d')
      | (d', False) \<Rightarrow> 0)"

text \<open>
  What holds of the entry of \<open>launched\<close> for index \<open>i\<close>: the command is \<open>cmd i\<close>, the
  stream is closed with an empty buffer, it has failed exactly when the pointer file could
  not be opened or had no room for the text, and when it has not failed the pointer file
  holds \<open>pointer_text i\<close>.
\<close>

definition launch_ok :: "int \<Rightarrow> string \<times> world \<times> fstream \<Rightarrow> bool" where
  "launch_ok i l =
     (case l of (c, w, f) \<Rightarrow>
        c = cmd i \<and> handle f = None \<and> pending f = [] \<and>
        bad f = (\<not> writable w checkpoint_path \<or>
                 \<not> fits (room w (denotes w checkpoint_path)) (pointer_text i)) \<and>
        (\<not> bad f \<longrightarrow> contents w checkpoint_path = Some (pointer_text i)))"

text \<open>
  The file system in which pass \<open>k\<close> begins, read off the list \<open>L\<close> of launches: the one
  \<^verbatim>\<open>main\<close> was started in for the first pass, and afterwards the one the child of the
  pass before has left (if that child never exits there is no next pass; the value is
  then the file system the child was started in).
\<close>

fun world_before :: "env \<Rightarrow> world \<Rightarrow> (string \<times> world \<times> fstream) list \<Rightarrow> nat \<Rightarrow> world" where
  "world_before E w L 0 = w"
| "world_before E w L (Suc k) =
     (case child E (fst (L ! k)) (fst (snd (L ! k))) of
        None \<Rightarrow> fst (snd (L ! k))
      | Some (a, w2) \<Rightarrow> w2)"

text \<open>
  The state in which the loop is entered, and the number of passes of \<^verbatim>\<open>main\<close> that run
  to their end.
\<close>

definition boot :: "world \<Rightarrow> driver" where
  "boot w = signal_SIGINT (start w)"

definition completed :: "env \<Rightarrow> world \<Rightarrow> nat" where
  "completed E w = rounds (body E) indices (boot w)"

text \<open>
  The surroundings \<open>E\<close> with every exit status \<open>a\<close> replaced by \<open>g c w a\<close>; the children
  terminate as before and leave the same files.
\<close>

definition with_status :: "(string \<Rightarrow> world \<Rightarrow> int \<Rightarrow> int) \<Rightarrow> env \<Rightarrow> env" where
  "with_status g E =
     E\<lparr>child := \<lambda>c w. map_option (\<lambda>(a, w'). (g c w a, w')) (child E c w)\<rparr>"

text \<open>
  The paths of the files opened for writing in a log of calls, and the calls that report
  on a child: its exit and the line printed after it.
\<close>

fun opened :: "event list \<Rightarrow> path list" where
  "opened [] = []"
| "opened (Open_trunc p # es) = p # opened es"
| "opened (e # es) = opened es"

fun is_report :: "event \<Rightarrow> bool" where
  "is_report (Exited c) = True"
| "is_report (Print s) = True"
| "is_report e = False"

text \<open>
  The text that section 4.2 of the specification prescribes for the pointer file: two
  lines, a newline after the first line only and no other bytes. It is used only to
  compare it with \<open>pointer_text\<close>.
\<close>

definition spec_pointer_text :: "int \<Rightarrow> string" where
  \<open>spec_pointer_text i =
     ''model_checkpoint_path: "episode_'' @ to_string i @ ''"\<newline>'' @
     ''all_model_checkpoint_paths: "episode_'' @ to_string i @ ''"''\<close>

text \<open>
  Surroundings used as concrete inputs. In \<open>env_ok\<close> every child exits with status 0 and
  changes no file; in \<open>env_fail_2000\<close> the child for index 2000 exits with status 1; in
  \<open>env_interrupt_2000\<close> a user interrupt reaches the driver while the child for index
  2000 runs; in \<open>env_logging\<close> every child appends a line to file 2. In \<open>world_fresh\<close>
  no file exists and every path can be opened; in \<open>world_denied\<close> no path can be opened
  (the directory \<^verbatim>\<open>./log/.../weights\<close> is missing, say); in \<open>world_full\<close> every path can
  be opened and no byte can be written (the disk is full); in \<open>world_stale\<close> the pointer
  file is left from an earlier sweep, naming episode 47000, and cannot be opened for
  writing; in \<open>world_used\<close> the pointer file (file 0) has old contents and a second name
  without the leading \<^verbatim>\<open>./\<close>, and \<^verbatim>\<open>main.py\<close> is file 1.
\<close>

definition env_ok :: env where
  "env_ok = \<lparr>child = (\<lambda>c w. Some (0, w)), interrupt = (\<lambda>c. False)\<rparr>"

definition env_fail_2000 :: env where
  "env_fail_2000 =
     \<lparr>child = (\<lambda>c w. Some (if c = ''python main.py --env BreakoutNoFrameskip-v4 --save 2000''
                              then 1 else 0, w)),
      interrupt = (\<lambda>c. False)\<rparr>"

definition env_interrupt_2000 :: env where
  "env_interrupt_2000 =
     \<lparr>child = (\<lambda>c w. Some (0, w)),
      interrupt = (\<lambda>c. c = ''python main.py --env BreakoutNoFrameskip-v4 --save 2000'')\<rparr>"

definition env_logging :: env where
  "env_logging =
     \<lparr>child = (\<lambda>c w. Some (0, w\<lparr>files := (files w)
                 (2 \<mapsto> (case files w 2 of None \<Rightarrow> [] | Some s \<Rightarrow> s) @ ''episode done\<newline>'')\<rparr>)),
      interrupt = (\<lambda>c. False)\<rparr>"

definition world_fresh :: world where
  "world_fresh =
     \<lparr>denotes = (\<lambda>p. if p = checkpoint_path then 0 else 1), files = (\<lambda>x. None),
      writable = (\<lambda>p. True), room = (\<lambda>x. None)\<rparr>"

definition world_denied :: world where
  "world_denied =
     \<lparr>denotes = (\<lambda>p. if p = checkpoint_path then 0 else 1), files = (\<lambda>x. None),
      writable = (\<lambda>p. False), room = (\<lambda>x. None)\<rparr>"

definition world_full :: world where
  "world_full =
     \<lparr>denotes = (\<lambda>p. if p = checkpoint_path then 0 else 1), files = (\<lambda>x. None),
      writable = (\<lambda>p. True), room = (\<lambda>x. Some 0)\<rparr>"

definition world_stale :: world where
  \<open>world_stale =
     \<lparr>denotes = (\<lambda>p. if p = checkpoint_path then 0 else 1),
      files = (\<lambda>x. if x = 0
                     then Some ''model_checkpoint_path: "episode_47000" \<newline>all_model_checkpoint_paths: "episode_47000"''
                     else None),
      writable = (\<lambda>p. False), room = (\<lambda>x. None)\<rparr>\<close>

definition world_used :: world where
  "world_used =
     \<lparr>denotes = (\<lambda>p. if p = checkpoint_path \<or>
                          p = ''log/20210110_190115_BreakoutNoFrameskip-v4/weights/checkpoint''
                       then 0 else if p = ''main.py'' then 1 else 2),
      files = (\<lambda>x. if x = 0 then Some ''old contents''
                     else if x = 1 then Some ''import gym'' else None),
      writable = (\<lambda>p. True), room = (\<lambda>x. None)\<rparr>"

text \<open>
  Reading a string of decimal digits back as a number (used to check \<open>digits\<close>).
\<close>

definition decimal_value :: "string \<Rightarrow> nat" where
  "decimal_value s = foldl (\<lambda>a c. 10 * a + (of_char c - 48)) 0 s"

section \<open>Auxiliary facts\<close>

text \<open>
  The loop runs its body on the values of the loop variable, and these are the
  progression \<open>indices\<close>. None of them comes near the limits of a 32-bit \<^verbatim>\<open>int\<close>.
\<close>

lemma sweep_run_list: "sweep f i d = run_list f (loop_values i) d"
proof (induction f i d rule: sweep.induct)
  case (1 f i d)
  show ?case
  proof (cases "i \<le> 47000")
    case True
    then show ?thesis
      using "1.IH" by (subst sweep.simps, subst loop_values.simps) (simp split: prod.splits bool.splits)
  next
    case False
    then show ?thesis
      by (subst sweep.simps, subst loop_values.simps) simp
  qed
qed

lemma body_prepare:
  "body E i d = (case system E (cmd i) (prepare i d) of
                   (d9, None) \<Rightarrow> (d9, False)
                 | (d9, Some a) \<Rightarrow> (cout_line i d9, True))"
  by (simp add: body_def prepare_def cmd_def Let_def)

text \<open>
  The effect of each call, under the condition that decides it.
\<close>

lemma trace_log [simp]: "trace (log e d) = trace d @ [e]"
  by (simp add: log_def)

lemma log_fields [simp]:
  "fs (log e d) = fs d" "file_stream (log e d) = file_stream d" "cout (log e d) = cout d"
  "stop_requested (log e d) = stop_requested d" "launched (log e d) = launched d"
  by (simp_all add: log_def)

lemma open_ok:
  "handle (file_stream d) = None \<Longrightarrow> writable (fs d) p \<Longrightarrow>
   fstream_open p d = d\<lparr>fs := (fs d)\<lparr>files := (files (fs d))(denotes (fs d) p \<mapsto> [])\<rparr>,
      file_stream := \<lparr>handle = Some (denotes (fs d) p), bad = False, pending = []\<rparr>,
      trace := trace d @ [Open_trunc p]\<rparr>"
  by (simp add: fstream_open_def log_def)

lemma open_fail:
  "handle (file_stream d) = None \<Longrightarrow> \<not> writable (fs d) p \<Longrightarrow>
   fstream_open p d = d\<lparr>file_stream := (file_stream d)\<lparr>bad := True\<rparr>,
      trace := trace d @ [Open_trunc p]\<rparr>"
  by (simp add: fstream_open_def log_def)

lemma put_ok:
  "handle (file_stream d) = Some x \<Longrightarrow> \<not> bad (file_stream d) \<Longrightarrow>
   fstream_put s d = d\<lparr>file_stream := (file_stream d)\<lparr>pending := pending (file_stream d) @ s\<rparr>,
      trace := trace d @ [Put s]\<rparr>"
  by (simp add: fstream_put_def log_def)

lemma put_bad:
  "bad (file_stream d) \<Longrightarrow> fstream_put s d = d\<lparr>trace := trace d @ [Put s]\<rparr>"
  by (simp add: fstream_put_def log_def)

lemma prepare_ok:
  assumes "handle (file_stream d) = None" "writable (fs d) checkpoint_path"
  shows "prepare i d =
    d\<lparr>fs := (fs d)\<lparr>files := (files (fs d))
           (denotes (fs d) checkpoint_path \<mapsto>
              landed (room (fs d) (denotes (fs d) checkpoint_path)) (pointer_text i))\<rparr>,
      file_stream := \<lparr>handle = None,
          bad = (\<not> fits (room (fs d) (denotes (fs d) checkpoint_path)) (pointer_text i)),
          pending = []\<rparr>,
      trace := trace d @ butlast (calls i)\<rparr>"
  using assms
  by (simp add: prepare_def open_ok put_ok fstream_close_def log_def pointer_text_def calls_def)

lemma prepare_fail:
  assumes "handle (file_stream d) = None" "\<not> writable (fs d) checkpoint_path"
  shows "prepare i d = d\<lparr>file_stream := (file_stream d)\<lparr>bad := True\<rparr>,
      trace := trace d @ butlast (calls i)\<rparr>"
  using assms
  by (simp add: prepare_def open_fail put_bad fstream_close_def log_def calls_def)

lemma prepare_idle:
  assumes "idle d"
  shows "prepare i d = d\<lparr>fs := pointer_written i (fs d), file_stream := closed_stream i (fs d),
      trace := trace d @ butlast (calls i)\<rparr>"
proof (cases "writable (fs d) checkpoint_path")
  case True
  with assms show ?thesis
    by (simp add: prepare_ok idle_def pointer_written_def closed_stream_def)
next
  case False
  with assms show ?thesis
    by (simp add: prepare_fail idle_def pointer_written_def closed_stream_def)
qed

lemma system_blocked:
  "child E c (fs d) = None \<Longrightarrow>
   system E c d = (d\<lparr>trace := trace d @ [Launch c],
                     launched := launched d @ [(c, fs d, file_stream d)]\<rparr>, None)"
  by (simp add: system_def log_def)

lemma system_exit:
  "child E c (fs d) = Some (a, w) \<Longrightarrow>
   system E c d = (d\<lparr>fs := w, stop_requested := (stop_requested d \<or> interrupt E c),
                     trace := trace d @ [Launch c, Exited c],
                     launched := launched d @ [(c, fs d, file_stream d)]\<rparr>, Some a)"
  by (simp add: system_def log_def deliver_def sigint_def)

lemma body_blocked:
  assumes "idle d" "child E (cmd i) (pointer_written i (fs d)) = None"
  shows "body E i d =
     (d\<lparr>fs := pointer_written i (fs d), file_stream := closed_stream i (fs d),
        trace := trace d @ calls i,
        launched := launched d @ [(cmd i, pointer_written i (fs d), closed_stream i (fs d))]\<rparr>, False)"
  using assms
  by (simp add: body_prepare prepare_idle system_blocked calls_def)

lemma body_exit:
  assumes "idle d" "child E (cmd i) (pointer_written i (fs d)) = Some (a, w)"
  shows "body E i d =
     (d\<lparr>fs := w, file_stream := closed_stream i (fs d),
        cout := cout d @ to_string i @ ''\<newline>'',
        stop_requested := (stop_requested d \<or> interrupt E (cmd i)),
        trace := trace d @ calls i @ after i,
        launched := launched d @ [(cmd i, pointer_written i (fs d), closed_stream i (fs d))]\<rparr>, True)"
  using assms
  by (simp add: body_prepare prepare_idle system_exit calls_def after_def cout_line_def log_def)

lemma landed_fits: "fits r s \<Longrightarrow> landed r s = s"
  by (simp add: fits_def landed_def split: option.splits)

lemma pointer_written_fields [simp]:
  "writable (pointer_written i w) = writable w"
  "denotes (pointer_written i w) = denotes w"
  "room (pointer_written i w) = room w"
  by (simp_all add: pointer_written_def)

lemma pointer_written_contents:
  "writable w checkpoint_path \<Longrightarrow> fits (room w (denotes w checkpoint_path)) (pointer_text i) \<Longrightarrow>
   contents (pointer_written i w) checkpoint_path = Some (pointer_text i)"
  by (simp add: pointer_written_def contents_def landed_fits)

lemma pointer_written_other:
  "x \<noteq> denotes w checkpoint_path \<Longrightarrow> files (pointer_written i w) x = files w x"
  by (simp add: pointer_written_def)

lemma launch_ok_prepared: "launch_ok i (cmd i, pointer_written i w, closed_stream i w)"
  by (auto simp: launch_ok_def closed_stream_def pointer_written_contents)

lemma run_snd: "snd (run_list f js d) = (rounds f js d = length js)"
  by (induction js arbitrary: d) (auto split: prod.splits bool.splits)

lemma rounds_le: "rounds f js d \<le> length js"
  by (induction js arbitrary: d) (auto split: prod.splits bool.splits)

text \<open>
  One pass from an idle stream either waits for ever on its child or runs to its end; in
  both cases every component of the new state is known.
\<close>

lemma body_cases:
  assumes "idle d"
  obtains
    (blocked) d' where "body E i d = (d', False)" "idle d'"
      "child E (cmd i) (pointer_written i (fs d)) = None"
      "trace d' = trace d @ calls i" "cout d' = cout d"
      "launched d' = launched d @ [(cmd i, pointer_written i (fs d), closed_stream i (fs d))]"
      "fs d' = pointer_written i (fs d)" "stop_requested d' = stop_requested d"
  | (exit) d' a w where "body E i d = (d', True)" "idle d'"
      "child E (cmd i) (pointer_written i (fs d)) = Some (a, w)"
      "trace d' = trace d @ calls i @ after i" "cout d' = cout d @ to_string i @ ''\<newline>''"
      "launched d' = launched d @ [(cmd i, pointer_written i (fs d), closed_stream i (fs d))]"
      "fs d' = w" "stop_requested d' = (stop_requested d \<or> interrupt E (cmd i))"
proof (cases "child E (cmd i) (pointer_written i (fs d))")
  case None
  show ?thesis
    by (rule blocked [OF body_blocked [OF assms None]])
       (simp_all add: idle_def closed_stream_def None)
next
  case (Some r)
  obtain a w where r: "r = (a, w)" by (cases r)
  show ?thesis
    by (rule exit [OF body_exit [OF assms Some [unfolded r]]])
       (simp_all add: idle_def closed_stream_def Some r)
qed

text \<open>
  The same facts for a run over a list of indices, by induction on the list.
\<close>

lemma run_idle: "idle d \<Longrightarrow> idle (fst (run_list (body E) js d))"
proof (induction js arbitrary: d)
  case Nil
  then show ?case by simp
next
  case (Cons i js)
  from Cons.prems show ?case
  proof (cases rule: body_cases [of d E i])
    case (blocked d')
    then show ?thesis by simp
  next
    case (exit d' a w)
    then show ?thesis using Cons.IH by simp
  qed
qed

lemma run_trace:
  "idle d \<Longrightarrow>
   trace (fst (run_list (body E) js d)) =
     trace d @ concat (map (\<lambda>i. calls i @ after i) (take (rounds (body E) js d) js)) @
     (if rounds (body E) js d < length js then calls (js ! rounds (body E) js d) else [])"
proof (induction js arbitrary: d)
  case Nil
  then show ?case by simp
next
  case (Cons i js)
  from Cons.prems show ?case
  proof (cases rule: body_cases [of d E i])
    case (blocked d')
    then show ?thesis by simp
  next
    case (exit d' a w)
    then show ?thesis using Cons.IH [OF exit(2)] by simp
  qed
qed

lemma run_cout:
  "idle d \<Longrightarrow>
   cout (fst (run_list (body E) js d)) =
     cout d @ concat (map (\<lambda>i. to_string i @ ''\<newline>'') (take (rounds (body E) js d) js))"
proof (induction js arbitrary: d)
  case Nil
  then show ?case by simp
next
  case (Cons i js)
  from Cons.prems show ?case
  proof (cases rule: body_cases [of d E i])
    case (blocked d')
    then show ?thesis by simp
  next
    case (exit d' a w)
    then show ?thesis using Cons.IH [OF exit(2)] by simp
  qed
qed

lemma run_launched:
  "idle d \<Longrightarrow>
   \<exists>L. launched (fst (run_list (body E) js d)) = launched d @ L \<and>
       list_all2 launch_ok (take (Suc (rounds (body E) js d)) js) L"
proof (induction js arbitrary: d)
  case Nil
  then show ?case by simp
next
  case (Cons i js)
  from Cons.prems show ?case
  proof (cases rule: body_cases [of d E i])
    case (blocked d')
    then show ?thesis by (simp add: launch_ok_prepared)
  next
    case (exit d' a w)
    from Cons.IH [OF exit(2)] obtain L where
      L: "launched (fst (run_list (body E) js d')) = launched d' @ L"
         "list_all2 launch_ok (take (Suc (rounds (body E) js d')) js) L"
      by blast
    show ?thesis
      using exit L by (simp add: launch_ok_prepared)
  qed
qed

lemma run_total:
  "\<forall>c w. child E c w \<noteq> None \<Longrightarrow> idle d \<Longrightarrow> rounds (body E) js d = length js"
proof (induction js arbitrary: d)
  case Nil
  then show ?case by simp
next
  case (Cons i js)
  from Cons.prems(2) show ?case
  proof (cases rule: body_cases [of d E i])
    case (blocked d')
    then show ?thesis using Cons.prems(1) by simp
  next
    case (exit d' a w)
    then show ?thesis using Cons.IH [OF Cons.prems(1) exit(2)] by simp
  qed
qed

lemma world_before_Cons:
  "child E (fst l) (fst (snd l)) = Some (a, w2) \<Longrightarrow>
   world_before E w (l # L) (Suc k) = world_before E w2 L k"
  by (cases k) (simp_all split: option.splits)

lemma run_worlds:
  "idle d \<Longrightarrow>
   \<exists>L. launched (fst (run_list (body E) js d)) = launched d @ L \<and>
       (\<forall>k<length L. fst (snd (L ! k)) = pointer_written (js ! k) (world_before E (fs d) L k)) \<and>
       fs (fst (run_list (body E) js d)) = world_before E (fs d) L (length L)"
proof (induction js arbitrary: d)
  case Nil
  then show ?case by simp
next
  case (Cons i js)
  from Cons.prems show ?case
  proof (cases rule: body_cases [of d E i])
    case (blocked d')
    then show ?thesis by simp
  next
    case (exit d' a w)
    from Cons.IH [OF exit(2)] obtain L where
      L: "launched (fst (run_list (body E) js d')) = launched d' @ L"
         "\<forall>k<length L. fst (snd (L ! k)) = pointer_written (js ! k) (world_before E (fs d') L k)"
         "fs (fst (run_list (body E) js d')) = world_before E (fs d') L (length L)"
      by blast
    let ?l = "(cmd i, pointer_written i (fs d), closed_stream i (fs d))"
    have step: "world_before E (fs d) (?l # L) (Suc k) = world_before E w L k" for k
      using exit(3) by (intro world_before_Cons) simp
    have "\<forall>k<length (?l # L).
        fst (snd ((?l # L) ! k)) = pointer_written ((i # js) ! k) (world_before E (fs d) (?l # L) k)"
    proof (intro allI impI)
      fix k assume k: "k < length (?l # L)"
      show "fst (snd ((?l # L) ! k)) =
          pointer_written ((i # js) ! k) (world_before E (fs d) (?l # L) k)"
      proof (cases k)
        case 0
        then show ?thesis by simp
      next
        case (Suc k')
        with k L(2) exit(7) show ?thesis by (simp add: step del: world_before.simps)
      qed
    qed
    moreover have "launched (fst (run_list (body E) (i # js) d)) = launched d @ ?l # L"
      using exit L(1) by simp
    moreover have "fs (fst (run_list (body E) (i # js) d)) =
        world_before E (fs d) (?l # L) (length (?l # L))"
      using exit L(3) by (simp add: step del: world_before.simps)
    ultimately show ?thesis by blast
  qed
qed

lemma indices_eq: "indices = [1000, 2000, 3000, 4000, 5000, 6000, 7000, 8000, 9000, 10000,
  11000, 12000, 13000, 14000, 15000, 16000, 17000, 18000, 19000, 20000,
  21000, 22000, 23000, 24000, 25000, 26000, 27000, 28000, 29000, 30000,
  31000, 32000, 33000, 34000, 35000, 36000, 37000, 38000, 39000, 40000,
  41000, 42000, 43000, 44000, 45000, 46000, 47000]"
  by (simp add: indices_def upt_rec)

lemma loop_values_1000: "loop_values 1000 = indices"
  by (simp add: loop_values.simps indices_eq)

lemma length_indices [simp]: "length indices = 47"
  by (simp add: indices_def)

lemma boot_fields [simp]:
  "idle (boot w)" "trace (boot w) = [Handler_installed]" "cout (boot w) = []"
  "launched (boot w) = []" "fs (boot w) = w" "stop_requested (boot w) = False"
  by (simp_all add: boot_def signal_SIGINT_def start_def idle_def)

text \<open>
  \<^verbatim>\<open>main\<close> is the run over \<open>indices\<close> from the state \<open>boot w\<close>.
\<close>

lemma main_run:
  "main E w = (fst (run_list (body E) indices (boot w)),
               if completed E w = 47 then Returned 0 else Blocked)"
proof -
  obtain d b where r: "run_list (body E) indices (boot w) = (d, b)"
    by (cases "run_list (body E) indices (boot w)")
  have "b = (completed E w = 47)"
    using run_snd [of "body E" indices "boot w"] r by (simp add: completed_def)
  then show ?thesis
    by (cases b) (simp_all add: main_def sweep_run_list loop_values_1000 r boot_def [symmetric])
qed

lemma completed_le: "completed E w \<le> 47"
  using rounds_le [of "body E" indices "boot w"] by (simp add: completed_def)

lemma completed_total: "\<forall>c w. child E c w \<noteq> None \<Longrightarrow> completed E w = 47"
  using run_total [of E "boot w" indices] by (simp add: completed_def)

lemma main_trace:
  "trace (fst (main E w)) =
     Handler_installed # concat (map (\<lambda>i. calls i @ after i) (take (completed E w) indices)) @
     (if completed E w < 47 then calls (indices ! completed E w) else [])"
  using run_trace [of "boot w" E indices] by (simp add: main_run completed_def)

lemma main_cout:
  "cout (fst (main E w)) =
     concat (map (\<lambda>i. to_string i @ ''\<newline>'') (take (completed E w) indices))"
  using run_cout [of "boot w" E indices] by (simp add: main_run completed_def)

lemma main_launched:
  "list_all2 launch_ok (take (Suc (completed E w)) indices) (launched (fst (main E w)))"
  using run_launched [of "boot w" E indices] by (simp add: main_run completed_def)

lemma main_launched_nth:
  assumes "k < length (launched (fst (main E w)))"
  shows "launch_ok (indices ! k) (launched (fst (main E w)) ! k)"
proof -
  have len: "length (take (Suc (completed E w)) indices) = length (launched (fst (main E w)))"
    using main_launched [of E w] by (rule list_all2_lengthD)
  with assms have kk: "k < length (take (Suc (completed E w)) indices)" by simp
  have "launch_ok (take (Suc (completed E w)) indices ! k) (launched (fst (main E w)) ! k)"
    by (rule list_all2_nthD [OF main_launched kk])
  moreover have "k < Suc (completed E w)"
    using kk by simp
  ultimately show ?thesis by simp
qed

lemma main_launched_cmds:
  "map fst (launched (fst (main E w))) = map cmd (take (Suc (completed E w)) indices)"
proof -
  have "list_all2 launch_ok xs L \<Longrightarrow> map fst L = map cmd xs" for xs L
    by (induction rule: list_all2_induct) (auto simp: launch_ok_def)
  then show ?thesis using main_launched by blast
qed

lemma run_first_launch:
  assumes "idle d"
  shows "launched (fst (run_list (body E) (i # js) d)) ! length (launched d) =
           (cmd i, pointer_written i (fs d), closed_stream i (fs d))"
  using assms
proof (cases rule: body_cases [of d E i])
  case (blocked d')
  then show ?thesis by simp
next
  case (exit d' a w)
  from run_launched [OF exit(2), of E js] obtain L where
    "launched (fst (run_list (body E) js d')) = launched d' @ L"
    by blast
  with exit show ?thesis by (simp add: nth_append)
qed

lemma main_first_launch:
  "launched (fst (main E w)) ! 0 = (cmd 1000, pointer_written 1000 w, closed_stream 1000 w)"
  using run_first_launch [of "boot w" E 1000 "tl indices"]
  by (simp add: main_run) (simp add: indices_eq)

lemma main_worlds:
  assumes "k < length (launched (fst (main E w)))"
  shows "fst (snd (launched (fst (main E w)) ! k)) =
           pointer_written (indices ! k) (world_before E w (launched (fst (main E w))) k)"
  using run_worlds [of "boot w" E indices] assms by (auto simp: main_run)

lemma main_final_world:
  "fs (fst (main E w)) =
     world_before E w (launched (fst (main E w))) (length (launched (fst (main E w))))"
  using run_worlds [of "boot w" E indices] by (auto simp: main_run)

lemmas eval_string = to_string_def digits.simps digit_def

text \<open>
  The exit status is not used: changing it changes nothing in the driver.
\<close>

lemma body_with_status: "body (with_status g E) i d = body E i d"
  by (simp add: body_def Let_def system_def with_status_def split: option.splits)

lemma main_with_status: "main (with_status g E) w = main E w"
proof -
  have "body (with_status g E) = body E"
    by (intro ext) (rule body_with_status)
  then show ?thesis by (simp add: main_def)
qed

lemma system_status: "snd (system E c d) = map_option fst (child E c (fs d))"
  by (simp add: system_def Let_def split: option.splits)

text \<open>
  Neither is the stop flag: an interrupt changes that flag and nothing else.
\<close>

lemma run_interrupt:
  "idle d \<Longrightarrow>
   \<exists>b. run_list (body (E\<lparr>interrupt := f\<rparr>)) js (d\<lparr>stop_requested := s0\<rparr>) =
       ((fst (run_list (body E) js d))\<lparr>stop_requested := b\<rparr>, snd (run_list (body E) js d))"
proof (induction js arbitrary: d s0)
  case Nil
  show ?case by (rule exI [of _ s0]) simp
next
  case (Cons i js)
  have idle': "idle (d\<lparr>stop_requested := s0\<rparr>)"
    using Cons.prems by (simp add: idle_def)
  show ?case
  proof (cases "child E (cmd i) (pointer_written i (fs d))")
    case None
    with Cons.prems idle' show ?thesis
      by (intro exI [of _ s0]) (simp add: body_blocked)
  next
    case (Some r)
    obtain a w where r: "r = (a, w)" by (cases r)
    let ?d1 = "d\<lparr>fs := w, file_stream := closed_stream i (fs d),
        cout := cout d @ to_string i @ ''\<newline>'',
        stop_requested := (stop_requested d \<or> interrupt E (cmd i)),
        trace := trace d @ calls i @ after i,
        launched := launched d @ [(cmd i, pointer_written i (fs d), closed_stream i (fs d))]\<rparr>"
    have b1: "body E i d = (?d1, True)"
      using Cons.prems Some r by (simp add: body_exit)
    have b2: "body (E\<lparr>interrupt := f\<rparr>) i (d\<lparr>stop_requested := s0\<rparr>) =
        (?d1\<lparr>stop_requested := (s0 \<or> f (cmd i))\<rparr>, True)"
      using idle' Some r by (simp add: body_exit)
    have "idle ?d1" by (simp add: idle_def closed_stream_def)
    from Cons.IH [OF this, of "s0 \<or> f (cmd i)"] show ?thesis
      by (simp add: b1 b2)
  qed
qed

lemma main_interrupt:
  "\<exists>b. fst (main (E\<lparr>interrupt := f\<rparr>) w) = (fst (main E w))\<lparr>stop_requested := b\<rparr> \<and>
       snd (main (E\<lparr>interrupt := f\<rparr>) w) = snd (main E w)"
proof -
  from run_interrupt [where d = "boot w" and E = E and f = f and js = indices and ?s0.0 = False,
      OF boot_fields(1)] obtain b where
    b: "run_list (body (E\<lparr>interrupt := f\<rparr>)) indices ((boot w)\<lparr>stop_requested := False\<rparr>) =
       ((fst (run_list (body E) indices (boot w)))\<lparr>stop_requested := b\<rparr>,
        snd (run_list (body E) indices (boot w)))"
    by auto
  have "(boot w)\<lparr>stop_requested := False\<rparr> = boot w"
    by (simp add: boot_def signal_SIGINT_def start_def log_def)
  with b show ?thesis
    by (auto simp add: main_def sweep_run_list loop_values_1000 boot_def [symmetric]
        split: prod.splits bool.splits)
qed

lemma run_stop:
  "idle d \<Longrightarrow>
   stop_requested (fst (run_list (body E) js d)) =
     (stop_requested d \<or> (\<exists>i\<in>set (take (rounds (body E) js d) js). interrupt E (cmd i)))"
proof (induction js arbitrary: d)
  case Nil
  then show ?case by simp
next
  case (Cons i js)
  from Cons.prems show ?case
  proof (cases rule: body_cases [of d E i])
    case (blocked d')
    then show ?thesis by simp
  next
    case (exit d' a w)
    then show ?thesis using Cons.IH [OF exit(2)] by auto
  qed
qed

lemma main_stop:
  "stop_requested (fst (main E w)) =
     (\<exists>i\<in>set (take (completed E w) indices). interrupt E (cmd i))"
  using run_stop [of "boot w" E indices] by (simp add: main_run completed_def)

lemma opened_append: "opened (xs @ ys) = opened xs @ opened ys"
  by (induction xs rule: opened.induct) simp_all

lemma opened_calls: "opened (calls i) = [checkpoint_path]" "opened (after i) = []"
  by (simp_all add: calls_def after_def)

lemma opened_rounds:
  "opened (concat (map (\<lambda>i. calls i @ after i) xs)) = replicate (length xs) checkpoint_path"
  by (induction xs) (simp_all add: opened_append opened_calls)

lemma main_opened:
  "opened (trace (fst (main E w))) = replicate (length (launched (fst (main E w)))) checkpoint_path"
proof -
  have len: "length (launched (fst (main E w))) = min 47 (Suc (completed E w))"
    using list_all2_lengthD [OF main_launched [of E w]] by simp
  show ?thesis
  proof (cases "completed E w < 47")
    case True
    then have "min 47 (Suc (completed E w)) = Suc (completed E w)" by simp
    with True show ?thesis
      by (simp add: main_trace len opened_append opened_rounds opened_calls
          replicate_append_same)
  next
    case False
    with completed_le [of E w] have "completed E w = 47" by simp
    then show ?thesis
      by (simp add: main_trace len opened_append opened_rounds)
  qed
qed

lemma reports_round: "filter is_report (calls i) = []" "filter is_report (after i) = after i"
  by (simp_all add: calls_def after_def)

lemma reports_rounds:
  "filter is_report (concat (map (\<lambda>i. calls i @ after i) xs)) = concat (map after xs)"
  by (induction xs) (simp_all add: reports_round)

lemma below_ten:
  "(m::nat) < 10 \<Longrightarrow>
   m = 0 \<or> m = 1 \<or> m = 2 \<or> m = 3 \<or> m = 4 \<or> m = 5 \<or> m = 6 \<or> m = 7 \<or> m = 8 \<or> m = 9"
  by arith

text \<open>
  \<open>digits\<close> is the decimal rendering: reading it back gives the number, and it has no
  leading zero.
\<close>

lemma digit_value: "m < 10 \<Longrightarrow> of_char (digit m) - 48 = (m::nat)"
  using below_ten [of m] by (auto simp: digit_def)

lemma digit_not_zero: "0 < m \<Longrightarrow> m < 10 \<Longrightarrow> digit m \<noteq> CHR ''0''"
  using below_ten [of m] by (auto simp: digit_def)

lemma digits_value: "decimal_value (digits n) = n"
proof (induction n rule: digits.induct)
  case (1 n)
  show ?case
  proof (cases "n < 10")
    case True
    then show ?thesis
      by (subst digits.simps) (simp add: decimal_value_def digit_value)
  next
    case False
    then have "decimal_value (digits (n div 10)) = n div 10"
      using "1.IH" by simp
    with False show ?thesis
      by (subst digits.simps) (simp add: decimal_value_def digit_value)
  qed
qed

lemma digits_not_empty: "digits n \<noteq> []"
  by (subst digits.simps) simp

lemma digits_no_padding: "0 < n \<Longrightarrow> hd (digits n) \<noteq> CHR ''0''"
proof (induction n rule: digits.induct)
  case (1 n)
  show ?case
  proof (cases "n < 10")
    case True
    with "1.prems" show ?thesis
      by (subst digits.simps) (simp add: digit_not_zero)
  next
    case False
    then have "0 < n div 10" by simp
    with False "1.IH" have "hd (digits (n div 10)) \<noteq> CHR ''0''" by simp
    with False show ?thesis
      by (subst digits.simps) (simp add: digits_not_empty)
  qed
qed

lemma to_string_value: "0 \<le> i \<Longrightarrow> int (decimal_value (to_string i)) = i"
  by (simp add: to_string_def digits_value)

lemma loop_values_small:
  "list_all (\<lambda>i. 0 < i \<and> i + 1000 < 2 ^ 31) (loop_values 1000)"
  by (simp add: loop_values_1000 indices_eq)

lemma main_launched_length:
  "length (launched (fst (main E w))) = min 47 (Suc (completed E w))"
  using list_all2_lengthD [OF main_launched [of E w]] by simp

lemma launch_ok_written:
  "list_all2 launch_ok xs L \<Longrightarrow>
   list_all2 (\<lambda>i l. fst l = cmd i \<and>
       handle (snd (snd l)) = None \<and> pending (snd (snd l)) = [] \<and>
       (\<not> bad (snd (snd l)) \<longrightarrow>
          contents (fst (snd l)) checkpoint_path = Some (pointer_text i))) xs L"
  by (erule list_all2_mono) (auto simp: launch_ok_def)







lemma world_before_denied:
  assumes "\<forall>c v. \<exists>a. child E c v = Some (a, v)"
    and "\<not> writable w checkpoint_path"
  shows "k \<le> length (launched (fst (main E w))) \<Longrightarrow>
         world_before E w (launched (fst (main E w))) k = w"
proof (induction k)
  case 0
  show ?case by simp
next
  case (Suc k)
  then have k: "k < length (launched (fst (main E w)))" by simp
  let ?v = "fst (snd (launched (fst (main E w)) ! k))"
  have "?v = pointer_written (indices ! k) (world_before E w (launched (fst (main E w))) k)"
    by (rule main_worlds [OF k])
  also have "\<dots> = w"
    using Suc k assms(2) by (simp add: pointer_written_def)
  finally have v: "?v = w" .
  from assms(1) obtain a where "child E (fst (launched (fst (main E w)) ! k)) ?v = Some (a, ?v)"
    by blast
  then show ?case
    by (simp add: v)
qed

lemma world_used_fields:
  "denotes world_used checkpoint_path = 0"
  "denotes world_used ''log/20210110_190115_BreakoutNoFrameskip-v4/weights/checkpoint'' = 0"
  "writable world_used p"
  "room world_used x = None"
  "files world_used 1 = Some ''import gym''"
  "files world_used (Suc 0) = Some ''import gym''"
  "files world_used 2 = None"
  by (simp_all add: world_used_def)

lemma launch_ok_bad:
  "launch_ok i l \<Longrightarrow>
   bad (snd (snd l)) =
     (\<not> writable (fst (snd l)) checkpoint_path \<or>
      \<not> fits (room (fst (snd l)) (denotes (fst (snd l)) checkpoint_path)) (pointer_text i))"
  by (cases l) (simp add: launch_ok_def)

section \<open>The claims\<close>

text \<open>
  Claim C1, as the code has it. In every pass the calls that open the pointer file with
  truncation, insert the six pieces of text and close the stream (which flushes it) are
  made in this order and have returned before the child for that index is started, and
  the next pass opens the file only after that child has exited. For any surroundings,
  the log of calls of \<^verbatim>\<open>main\<close> is the installation of the handler followed by \<open>n\<close>
  complete passes \<open>calls i @ after i\<close> for the first \<open>n\<close> indices; either \<open>n = 47\<close> and
  \<^verbatim>\<open>main\<close> returns 0, or the child of the next index never exits and the log ends with
  the start of that child: nothing is opened or written while it runs. Whenever a child
  is started, the stream is closed and its buffer is empty. The driver does not test
  whether the calls succeeded: the file holds the whole text for the index of that child
  when the stream has not failed, and the child is started in either case.
\<close>

theorem pointer_closed_before_launch_child_awaited:
  "\<exists>n. n \<le> 47 \<and>
     trace (fst (main E w)) =
       Handler_installed # concat (map (\<lambda>i. calls i @ after i) (take n indices)) @
       (if n < 47 then calls (indices ! n) else []) \<and>
     snd (main E w) = (if n < 47 then Blocked else Returned 0) \<and>
     list_all2 (\<lambda>i l. fst l = cmd i \<and>
         handle (snd (snd l)) = None \<and> pending (snd (snd l)) = [] \<and>
         (\<not> bad (snd (snd l)) \<longrightarrow>
            contents (fst (snd l)) checkpoint_path = Some (pointer_text i)))
       (take (Suc n) indices) (launched (fst (main E w)))"
proof (intro exI [of _ "completed E w"] conjI)
  show "completed E w \<le> 47" by (rule completed_le)
  show "trace (fst (main E w)) =
       Handler_installed # concat (map (\<lambda>i. calls i @ after i) (take (completed E w) indices)) @
       (if completed E w < 47 then calls (indices ! completed E w) else [])"
    by (rule main_trace)
  show "snd (main E w) = (if completed E w < 47 then Blocked else Returned 0)"
    using completed_le [of E w] by (simp add: main_run)
  show "list_all2 (\<lambda>i l. fst l = cmd i \<and>
         handle (snd (snd l)) = None \<and> pending (snd (snd l)) = [] \<and>
         (\<not> bad (snd (snd l)) \<longrightarrow>
            contents (fst (snd l)) checkpoint_path = Some (pointer_text i)))
       (take (Suc (completed E w)) indices) (launched (fst (main E w)))"
    by (rule launch_ok_written [OF main_launched])
qed

text \<open>
  A sweep in which every child exits and the file can be opened and written: the stream
  has not failed at the first launch, the file holds the text for index 1000, and
  \<^verbatim>\<open>main\<close> returns.
\<close>

theorem pointer_closed_before_launch_child_awaited_witness:
  \<open>(\<exists>n. n \<le> 47 \<and>
     trace (fst (main env_ok world_fresh)) =
       Handler_installed # concat (map (\<lambda>i. calls i @ after i) (take n indices)) @
       (if n < 47 then calls (indices ! n) else []) \<and>
     snd (main env_ok world_fresh) = (if n < 47 then Blocked else Returned 0) \<and>
     list_all2 (\<lambda>i l. fst l = cmd i \<and>
         handle (snd (snd l)) = None \<and> pending (snd (snd l)) = [] \<and>
         (\<not> bad (snd (snd l)) \<longrightarrow>
            contents (fst (snd l)) checkpoint_path = Some (pointer_text i)))
       (take (Suc n) indices) (launched (fst (main env_ok world_fresh)))) \<and>
   \<not> bad (snd (snd (launched (fst (main env_ok world_fresh)) ! 0))) \<and>
   contents (fst (snd (launched (fst (main env_ok world_fresh)) ! 0))) checkpoint_path =
     Some ''model_checkpoint_path: "episode_1000" \<newline>all_model_checkpoint_paths: "episode_1000"'' \<and>
   snd (main env_ok world_fresh) = Returned 0\<close>
proof (intro conjI)
  show "\<exists>n. n \<le> 47 \<and>
     trace (fst (main env_ok world_fresh)) =
       Handler_installed # concat (map (\<lambda>i. calls i @ after i) (take n indices)) @
       (if n < 47 then calls (indices ! n) else []) \<and>
     snd (main env_ok world_fresh) = (if n < 47 then Blocked else Returned 0) \<and>
     list_all2 (\<lambda>i l. fst l = cmd i \<and>
         handle (snd (snd l)) = None \<and> pending (snd (snd l)) = [] \<and>
         (\<not> bad (snd (snd l)) \<longrightarrow>
            contents (fst (snd l)) checkpoint_path = Some (pointer_text i)))
       (take (Suc n) indices) (launched (fst (main env_ok world_fresh)))"
    by (rule pointer_closed_before_launch_child_awaited)
  show "\<not> bad (snd (snd (launched (fst (main env_ok world_fresh)) ! 0)))"
    by (simp add: main_first_launch closed_stream_def world_fresh_def fits_def)
  show \<open>contents (fst (snd (launched (fst (main env_ok world_fresh)) ! 0))) checkpoint_path =
     Some ''model_checkpoint_path: "episode_1000" \<newline>all_model_checkpoint_paths: "episode_1000"''\<close>
    by (simp add: main_first_launch pointer_written_def contents_def landed_def world_fresh_def
        pointer_text_def eval_string)
  have "\<forall>c w. child env_ok c w \<noteq> None"
    by (simp add: env_ok_def)
  then have "completed env_ok world_fresh = 47"
    by (rule completed_total)
  then show "snd (main env_ok world_fresh) = Returned 0"
    by (simp add: main_run)
qed

text \<open>
  Claim C1 as written fails: the file is not written in every pass. Where the path cannot
  be opened, the child for index 1000 is started with the stream failed and no pointer
  file; where the disk is full, the open truncates the file, the flush fails, and the
  child is started with an empty pointer file.
\<close>

theorem pointer_closed_before_launch_child_awaited_counterexample:
  "fst (launched (fst (main env_ok world_denied)) ! 0) =
     ''python main.py --env BreakoutNoFrameskip-v4 --save 1000'' \<and>
   bad (snd (snd (launched (fst (main env_ok world_denied)) ! 0))) \<and>
   contents (fst (snd (launched (fst (main env_ok world_denied)) ! 0))) checkpoint_path = None \<and>
   fst (launched (fst (main env_ok world_full)) ! 0) =
     ''python main.py --env BreakoutNoFrameskip-v4 --save 1000'' \<and>
   bad (snd (snd (launched (fst (main env_ok world_full)) ! 0))) \<and>
   contents (fst (snd (launched (fst (main env_ok world_full)) ! 0))) checkpoint_path = Some []"
proof -
  have a: "fst (launched (fst (main env_ok world_denied)) ! 0) =
     ''python main.py --env BreakoutNoFrameskip-v4 --save 1000''"
    by (simp add: main_first_launch cmd_def eval_string)
  have b: "bad (snd (snd (launched (fst (main env_ok world_denied)) ! 0)))"
    by (simp add: main_first_launch closed_stream_def world_denied_def)
  have c: "contents (fst (snd (launched (fst (main env_ok world_denied)) ! 0))) checkpoint_path =
      None"
    by (simp add: main_first_launch pointer_written_def contents_def world_denied_def)
  have d: "fst (launched (fst (main env_ok world_full)) ! 0) =
     ''python main.py --env BreakoutNoFrameskip-v4 --save 1000''"
    by (simp add: main_first_launch cmd_def eval_string)
  have e: "bad (snd (snd (launched (fst (main env_ok world_full)) ! 0)))"
    by (simp add: main_first_launch closed_stream_def world_full_def fits_def pointer_text_def)
  have f: "contents (fst (snd (launched (fst (main env_ok world_full)) ! 0))) checkpoint_path =
      Some []"
    by (simp add: main_first_launch pointer_written_def contents_def landed_def world_full_def)
  show ?thesis
    by (intro conjI) (rule a, rule b, rule c, rule d, rule e, rule f)
qed

text \<open>
  Claim C2, as the code has it. When the child for the \<open>k\<close>-th index is started and the
  stream has not failed (the file was opened and the flush wrote the whole text), the
  file holds exactly the two lines of the specification for that index with one more
  byte, a space before the newline that ends the first line.
\<close>

theorem pointer_text_at_launch:
  assumes "k < length (launched (fst (main E w)))"
    and "launched (fst (main E w)) ! k = (c, w', f)"
    and "\<not> bad f"
  shows \<open>c = cmd (indices ! k) \<and>
         contents w' checkpoint_path =
           Some (''model_checkpoint_path: "episode_'' @ to_string (indices ! k) @ ''" \<newline>'' @
                 ''all_model_checkpoint_paths: "episode_'' @ to_string (indices ! k) @ ''"'') \<and>
         writable w' checkpoint_path \<and>
         fits (room w' (denotes w' checkpoint_path)) (pointer_text (indices ! k))\<close>
  using main_launched_nth [OF assms(1)] assms(2,3)
  by (simp add: launch_ok_def) (simp add: pointer_text_def)

text \<open>
  The first pass in a file system where everything can be opened and written.
\<close>

theorem pointer_text_at_launch_witness:
  \<open>0 < length (launched (fst (main env_ok world_fresh))) \<and>
   launched (fst (main env_ok world_fresh)) ! 0 =
     (cmd 1000, pointer_written 1000 world_fresh, closed_stream 1000 world_fresh) \<and>
   \<not> bad (closed_stream 1000 world_fresh) \<and>
   cmd 1000 = cmd (indices ! 0) \<and>
   contents (pointer_written 1000 world_fresh) checkpoint_path =
     Some ''model_checkpoint_path: "episode_1000" \<newline>all_model_checkpoint_paths: "episode_1000"''\<close>
proof -
  have len: "0 < length (launched (fst (main env_ok world_fresh)))"
    by (simp add: main_launched_length)
  have first: "launched (fst (main env_ok world_fresh)) ! 0 =
      (cmd 1000, pointer_written 1000 world_fresh, closed_stream 1000 world_fresh)"
    by (rule main_first_launch)
  have good: "\<not> bad (closed_stream 1000 world_fresh)"
    by (simp add: closed_stream_def world_fresh_def fits_def)
  from pointer_text_at_launch [OF len first good] len first good show ?thesis
    by (simp add: indices_eq eval_string)
qed

text \<open>
  Claim C2 as written fails. When the child for index 1000 is started the file holds the
  text with the space, which is not the text of section 4.2; where the file cannot be
  opened the child is started although the file does not exist; and where it can be
  opened and the flush fails the child is started with the file empty.
\<close>

theorem pointer_text_at_launch_counterexample:
  \<open>fst (launched (fst (main env_ok world_fresh)) ! 0) =
     ''python main.py --env BreakoutNoFrameskip-v4 --save 1000'' \<and>
   contents (fst (snd (launched (fst (main env_ok world_fresh)) ! 0))) checkpoint_path =
     Some ''model_checkpoint_path: "episode_1000" \<newline>all_model_checkpoint_paths: "episode_1000"'' \<and>
   contents (fst (snd (launched (fst (main env_ok world_fresh)) ! 0))) checkpoint_path \<noteq>
     Some (spec_pointer_text 1000) \<and>
   contents (fst (snd (launched (fst (main env_ok world_denied)) ! 0))) checkpoint_path = None \<and>
   writable world_full checkpoint_path \<and>
   contents (fst (snd (launched (fst (main env_ok world_full)) ! 0))) checkpoint_path = Some []\<close>
proof -
  have a: "fst (launched (fst (main env_ok world_fresh)) ! 0) =
     ''python main.py --env BreakoutNoFrameskip-v4 --save 1000''"
    by (simp add: main_first_launch cmd_def eval_string)
  have b: \<open>contents (fst (snd (launched (fst (main env_ok world_fresh)) ! 0))) checkpoint_path =
     Some ''model_checkpoint_path: "episode_1000" \<newline>all_model_checkpoint_paths: "episode_1000"''\<close>
    by (simp add: main_first_launch pointer_written_def contents_def landed_def world_fresh_def
        pointer_text_def eval_string)
  have c: "contents (fst (snd (launched (fst (main env_ok world_fresh)) ! 0))) checkpoint_path \<noteq>
     Some (spec_pointer_text 1000)"
    unfolding b by (simp add: spec_pointer_text_def eval_string)
  have d: "contents (fst (snd (launched (fst (main env_ok world_denied)) ! 0))) checkpoint_path =
      None"
    by (simp add: main_first_launch pointer_written_def contents_def world_denied_def)
  have e: "writable world_full checkpoint_path"
    by (simp add: world_full_def)
  have f: "contents (fst (snd (launched (fst (main env_ok world_full)) ! 0))) checkpoint_path =
      Some []"
    by (simp add: main_first_launch pointer_written_def contents_def landed_def world_full_def)
  show ?thesis
    by (intro conjI) (rule a, rule b, rule c, rule d, rule e, rule f)
qed


text \<open>
  Claim C4, as the code has it. Whenever a child is started and the stream has not failed
  (the state the driver could have tested), there is one index \<open>i\<close> of the sweep that is
  both the index on the command line and the index named in the pointer file.
\<close>

theorem launch_index_matches_pointer:
  assumes "k < length (launched (fst (main E w)))"
    and "launched (fst (main E w)) ! k = (c, w', f)"
    and "\<not> bad f"
  shows "\<exists>i. i \<in> set indices \<and>
           c = ''python main.py --env BreakoutNoFrameskip-v4 --save '' @ to_string i \<and>
           contents w' checkpoint_path = Some (pointer_text i)"
proof (intro exI [of _ "indices ! k"] conjI)
  have "k < 47" using assms(1) by (simp add: main_launched_length)
  then show "indices ! k \<in> set indices" by simp
  show "c = ''python main.py --env BreakoutNoFrameskip-v4 --save '' @ to_string (indices ! k)"
    using main_launched_nth [OF assms(1)] assms(2) by (simp add: launch_ok_def cmd_def)
  show "contents w' checkpoint_path = Some (pointer_text (indices ! k))"
    using main_launched_nth [OF assms(1)] assms(2,3) by (simp add: launch_ok_def)
qed

text \<open>
  The first pass in a file system where everything can be opened.
\<close>

theorem launch_index_matches_pointer_witness:
  "0 < length (launched (fst (main env_ok world_fresh))) \<and>
   launched (fst (main env_ok world_fresh)) ! 0 =
     (cmd 1000, pointer_written 1000 world_fresh, closed_stream 1000 world_fresh) \<and>
   \<not> bad (closed_stream 1000 world_fresh) \<and>
   (\<exists>i. i \<in> set indices \<and>
      cmd 1000 = ''python main.py --env BreakoutNoFrameskip-v4 --save '' @ to_string i \<and>
      contents (pointer_written 1000 world_fresh) checkpoint_path = Some (pointer_text i))"
proof -
  have len: "0 < length (launched (fst (main env_ok world_fresh)))"
    by (simp add: main_launched_length)
  have first: "launched (fst (main env_ok world_fresh)) ! 0 =
      (cmd 1000, pointer_written 1000 world_fresh, closed_stream 1000 world_fresh)"
    by (rule main_first_launch)
  have good: "\<not> bad (closed_stream 1000 world_fresh)"
    by (simp add: closed_stream_def world_fresh_def fits_def)
  from launch_index_matches_pointer [OF len first good] len first good show ?thesis
    by simp
qed

text \<open>
  Claim C4 as written fails: the driver never tests the stream. With a pointer file left
  from an earlier sweep that cannot be opened for writing, the child is started with
  \<^verbatim>\<open>--save 1000\<close> while the pointer file names episode 47000.
\<close>

theorem launch_index_matches_pointer_counterexample:
  \<open>fst (launched (fst (main env_ok world_stale)) ! 0) =
     ''python main.py --env BreakoutNoFrameskip-v4 --save 1000'' \<and>
   contents (fst (snd (launched (fst (main env_ok world_stale)) ! 0))) checkpoint_path =
     Some ''model_checkpoint_path: "episode_47000" \<newline>all_model_checkpoint_paths: "episode_47000"''\<close>
  by (simp add: main_first_launch pointer_written_def contents_def cmd_def world_stale_def
      eval_string)

text \<open>
  Claim C5. When every child terminates, the commands handed to \<^verbatim>\<open>system\<close> are, in
  order, \<^verbatim>\<open>python main.py --env BreakoutNoFrameskip-v4 --save\<close> followed by the decimal
  rendering of the index, for each index of the sweep.
\<close>

theorem child_command_line:
  assumes "\<forall>c w. child E c w \<noteq> None"
  shows "map fst (launched (fst (main E w))) =
           map (\<lambda>i. ''python main.py --env BreakoutNoFrameskip-v4 --save '' @ to_string i) indices"
  using completed_total [OF assms, of w] main_launched_cmds [of E w]
  by (simp add: cmd_def [abs_def])

text \<open>
  The 47 commands, written out.
\<close>

theorem child_command_line_witness:
  "(\<forall>c w. child env_ok c w \<noteq> None) \<and>
   map fst (launched (fst (main env_ok world_fresh))) =
     [''python main.py --env BreakoutNoFrameskip-v4 --save 1000'',
      ''python main.py --env BreakoutNoFrameskip-v4 --save 2000'',
      ''python main.py --env BreakoutNoFrameskip-v4 --save 3000'',
      ''python main.py --env BreakoutNoFrameskip-v4 --save 4000'',
      ''python main.py --env BreakoutNoFrameskip-v4 --save 5000'',
      ''python main.py --env BreakoutNoFrameskip-v4 --save 6000'',
      ''python main.py --env BreakoutNoFrameskip-v4 --save 7000'',
      ''python main.py --env BreakoutNoFrameskip-v4 --save 8000'',
      ''python main.py --env BreakoutNoFrameskip-v4 --save 9000'',
      ''python main.py --env BreakoutNoFrameskip-v4 --save 10000'',
      ''python main.py --env BreakoutNoFrameskip-v4 --save 11000'',
      ''python main.py --env BreakoutNoFrameskip-v4 --save 12000'',
      ''python main.py --env BreakoutNoFrameskip-v4 --save 13000'',
      ''python main.py --env BreakoutNoFrameskip-v4 --save 14000'',
      ''python main.py --env BreakoutNoFrameskip-v4 --save 15000'',
      ''python main.py --env BreakoutNoFrameskip-v4 --save 16000'',
      ''python main.py --env BreakoutNoFrameskip-v4 --save 17000'',
      ''python main.py --env BreakoutNoFrameskip-v4 --save 18000'',
      ''python main.py --env BreakoutNoFrameskip-v4 --save 19000'',
      ''python main.py --env BreakoutNoFrameskip-v4 --save 20000'',
      ''python main.py --env BreakoutNoFrameskip-v4 --save 21000'',
      ''python main.py --env BreakoutNoFrameskip-v4 --save 22000'',
      ''python main.py --env BreakoutNoFrameskip-v4 --save 23000'',
      ''python main.py --env BreakoutNoFrameskip-v4 --save 24000'',
      ''python main.py --env BreakoutNoFrameskip-v4 --save 25000'',
      ''python main.py --env BreakoutNoFrameskip-v4 --save 26000'',
      ''python main.py --env BreakoutNoFrameskip-v4 --save 27000'',
      ''python main.py --env BreakoutNoFrameskip-v4 --save 28000'',
      ''python main.py --env BreakoutNoFrameskip-v4 --save 29000'',
      ''python main.py --env BreakoutNoFrameskip-v4 --save 30000'',
      ''python main.py --env BreakoutNoFrameskip-v4 --save 31000'',
      ''python main.py --env BreakoutNoFrameskip-v4 --save 32000'',
      ''python main.py --env BreakoutNoFrameskip-v4 --save 33000'',
      ''python main.py --env BreakoutNoFrameskip-v4 --save 34000'',
      ''python main.py --env BreakoutNoFrameskip-v4 --save 35000'',
      ''python main.py --env BreakoutNoFrameskip-v4 --save 36000'',
      ''python main.py --env BreakoutNoFrameskip-v4 --save 37000'',
      ''python main.py --env BreakoutNoFrameskip-v4 --save 38000'',
      ''python main.py --env BreakoutNoFrameskip-v4 --save 39000'',
      ''python main.py --env BreakoutNoFrameskip-v4 --save 40000'',
      ''python main.py --env BreakoutNoFrameskip-v4 --save 41000'',
      ''python main.py --env BreakoutNoFrameskip-v4 --save 42000'',
      ''python main.py --env BreakoutNoFrameskip-v4 --save 43000'',
      ''python main.py --env BreakoutNoFrameskip-v4 --save 44000'',
      ''python main.py --env BreakoutNoFrameskip-v4 --save 45000'',
      ''python main.py --env BreakoutNoFrameskip-v4 --save 46000'',
      ''python main.py --env BreakoutNoFrameskip-v4 --save 47000'']"
  using child_command_line [of env_ok world_fresh]
  by (simp add: env_ok_def indices_eq eval_string)




text \<open>
  Claim C7, as the code has it. \<^verbatim>\<open>system\<close> returns the exit status of the child, and the
  body stores it in \<^verbatim>\<open>a\<close>, which is never read: replacing the exit statuses by any others
  leaves the final state of the driver and its return status as they are. Whatever the
  statuses, when every child terminates all 47 commands are started and \<^verbatim>\<open>main\<close>
  returns 0.
\<close>

theorem exit_status_returned_and_unused:
  assumes "\<forall>c w. child E c w \<noteq> None"
  shows "snd (system E c d) = map_option fst (child E c (fs d)) \<and>
         main (with_status g E) w = main E w \<and>
         map fst (launched (fst (main E w))) = map cmd indices \<and>
         snd (main E w) = Returned 0"
proof (intro conjI)
  have all: "completed E w = 47" by (rule completed_total [OF assms])
  show "snd (system E c d) = map_option fst (child E c (fs d))"
    by (rule system_status)
  show "main (with_status g E) w = main E w"
    by (rule main_with_status)
  show "map fst (launched (fst (main E w))) = map cmd indices"
    using all main_launched_cmds [of E w] by simp
  show "snd (main E w) = Returned 0"
    using all by (simp add: main_run)
qed

text \<open>
  A sweep in which the child for index 2000 exits with status 1.
\<close>

theorem exit_status_returned_and_unused_witness:
  "(\<forall>c w. child env_fail_2000 c w \<noteq> None) \<and>
   snd (system env_fail_2000 ''python main.py --env BreakoutNoFrameskip-v4 --save 2000''
          (start world_fresh)) = Some 1 \<and>
   main (with_status (\<lambda>c w a. 0) env_fail_2000) world_fresh = main env_fail_2000 world_fresh \<and>
   map fst (launched (fst (main env_fail_2000 world_fresh))) = map cmd indices \<and>
   snd (main env_fail_2000 world_fresh) = Returned 0"
  using exit_status_returned_and_unused [of env_fail_2000
      "''python main.py --env BreakoutNoFrameskip-v4 --save 2000''" "start world_fresh"
      "\<lambda>c w a. 0" world_fresh]
  by (simp add: env_fail_2000_def)

text \<open>
  Claim C7 as written fails in its second part: nothing is reported or recorded. When the
  child for index 2000 exits with status 1, the driver ends in the very state, with the
  very output, in which it ends when every child exits with status 0.
\<close>

theorem exit_status_returned_and_unused_counterexample:
  "child env_fail_2000 ''python main.py --env BreakoutNoFrameskip-v4 --save 2000'' world_fresh =
     Some (1, world_fresh) \<and>
   map fst (launched (fst (main env_fail_2000 world_fresh))) ! 1 =
     ''python main.py --env BreakoutNoFrameskip-v4 --save 2000'' \<and>
   main env_fail_2000 world_fresh = main env_ok world_fresh \<and>
   cout (fst (main env_fail_2000 world_fresh)) =
     ''1000\<newline>2000\<newline>3000\<newline>4000\<newline>5000\<newline>6000\<newline>7000\<newline>8000\<newline>9000\<newline>10000\<newline>11000\<newline>12000\<newline>13000\<newline>14000\<newline>15000\<newline>16000\<newline>17000\<newline>18000\<newline>19000\<newline>20000\<newline>21000\<newline>22000\<newline>23000\<newline>24000\<newline>25000\<newline>26000\<newline>27000\<newline>28000\<newline>29000\<newline>30000\<newline>31000\<newline>32000\<newline>33000\<newline>34000\<newline>35000\<newline>36000\<newline>37000\<newline>38000\<newline>39000\<newline>40000\<newline>41000\<newline>42000\<newline>43000\<newline>44000\<newline>45000\<newline>46000\<newline>47000\<newline>'' \<and>
   snd (main env_fail_2000 world_fresh) = Returned 0"
proof -
  have "\<forall>c w. child env_fail_2000 c w \<noteq> None"
    by (simp add: env_fail_2000_def)
  then have all: "completed env_fail_2000 world_fresh = 47"
    by (rule completed_total)
  have a: "child env_fail_2000 ''python main.py --env BreakoutNoFrameskip-v4 --save 2000''
      world_fresh = Some (1, world_fresh)"
    by (simp add: env_fail_2000_def)
  have b: "map fst (launched (fst (main env_fail_2000 world_fresh))) ! 1 =
      ''python main.py --env BreakoutNoFrameskip-v4 --save 2000''"
    by (simp add: main_launched_cmds all cmd_def indices_eq eval_string)
  have eq: "env_fail_2000 =
      with_status (\<lambda>c w a. if c = ''python main.py --env BreakoutNoFrameskip-v4 --save 2000''
                             then 1 else 0) env_ok"
    by (simp add: env_fail_2000_def env_ok_def with_status_def)
  have c: "main env_fail_2000 world_fresh = main env_ok world_fresh"
    by (subst eq) (rule main_with_status)
  have d: "cout (fst (main env_fail_2000 world_fresh)) =
     ''1000\<newline>2000\<newline>3000\<newline>4000\<newline>5000\<newline>6000\<newline>7000\<newline>8000\<newline>9000\<newline>10000\<newline>11000\<newline>12000\<newline>13000\<newline>14000\<newline>15000\<newline>16000\<newline>17000\<newline>18000\<newline>19000\<newline>20000\<newline>21000\<newline>22000\<newline>23000\<newline>24000\<newline>25000\<newline>26000\<newline>27000\<newline>28000\<newline>29000\<newline>30000\<newline>31000\<newline>32000\<newline>33000\<newline>34000\<newline>35000\<newline>36000\<newline>37000\<newline>38000\<newline>39000\<newline>40000\<newline>41000\<newline>42000\<newline>43000\<newline>44000\<newline>45000\<newline>46000\<newline>47000\<newline>''"
    by (simp add: main_cout all indices_eq eval_string)
  have e: "snd (main env_fail_2000 world_fresh) = Returned 0"
    by (simp add: main_run all)
  show ?thesis
    by (intro conjI) (rule a, rule b, rule c, rule d, rule e)
qed

text \<open>
  Claim C8, as the code has it. The handler is installed before anything else. The loop
  reads no stop flag: interrupts, delivered during any children, change the flag of the
  handler and nothing else in the final state, the same children are started, and \<^verbatim>\<open>main\<close>
  returns 0 whenever it returns.
\<close>

theorem interrupt_does_not_stop_sweep:
  "hd (trace (fst (main E w))) = Handler_installed \<and>
   (\<exists>b. fst (main (E\<lparr>interrupt := f\<rparr>) w) = (fst (main E w))\<lparr>stop_requested := b\<rparr>) \<and>
   snd (main (E\<lparr>interrupt := f\<rparr>) w) = snd (main E w) \<and>
   (snd (main E w) = Returned 0 \<or> snd (main E w) = Blocked)"
proof (intro conjI)
  show "hd (trace (fst (main E w))) = Handler_installed"
    by (simp add: main_trace)
  show "\<exists>b. fst (main (E\<lparr>interrupt := f\<rparr>) w) = (fst (main E w))\<lparr>stop_requested := b\<rparr>"
    using main_interrupt [where E = E and f = f and w = w] by blast
  show "snd (main (E\<lparr>interrupt := f\<rparr>) w) = snd (main E w)"
    using main_interrupt [where E = E and f = f and w = w] by blast
  show "snd (main E w) = Returned 0 \<or> snd (main E w) = Blocked"
    by (simp add: main_run)
qed

text \<open>
  Claim C8 as written fails: with an interrupt during the child for index 2000 the stop
  request is recorded, and the child for index 3000 is started all the same; \<^verbatim>\<open>main\<close>
  returns 0.
\<close>

theorem interrupt_does_not_stop_sweep_counterexample:
  "interrupt env_interrupt_2000 ''python main.py --env BreakoutNoFrameskip-v4 --save 2000'' \<and>
   stop_requested (fst (main env_interrupt_2000 world_fresh)) \<and>
   map fst (launched (fst (main env_interrupt_2000 world_fresh))) ! 2 =
     ''python main.py --env BreakoutNoFrameskip-v4 --save 3000'' \<and>
   snd (main env_interrupt_2000 world_fresh) = Returned 0"
proof -
  have "\<forall>c w. child env_interrupt_2000 c w \<noteq> None"
    by (simp add: env_interrupt_2000_def)
  then have all: "completed env_interrupt_2000 world_fresh = 47"
    by (rule completed_total)
  have a: "interrupt env_interrupt_2000
      ''python main.py --env BreakoutNoFrameskip-v4 --save 2000''"
    by (simp add: env_interrupt_2000_def)
  have "2000 \<in> set (take 47 indices)"
    by (simp add: indices_eq)
  moreover have "interrupt env_interrupt_2000 (cmd 2000)"
    by (simp add: env_interrupt_2000_def cmd_def eval_string)
  ultimately have b: "stop_requested (fst (main env_interrupt_2000 world_fresh))"
    unfolding main_stop all by (rule bexI [rotated])
  have c: "map fst (launched (fst (main env_interrupt_2000 world_fresh))) ! 2 =
      ''python main.py --env BreakoutNoFrameskip-v4 --save 3000''"
    by (simp add: main_launched_cmds all cmd_def indices_eq eval_string)
  have d: "snd (main env_interrupt_2000 world_fresh) = Returned 0"
    by (simp add: main_run all)
  show ?thesis
    by (intro conjI) (rule a, rule b, rule c, rule d)
qed

text \<open>
  Claim C9. When every child terminates, the standard output of the driver is the
  decimal rendering of each index of the sweep followed by a newline, in order; and in
  the log of calls each exit of a child is followed by the line for its index, once.
\<close>

theorem index_printed_after_each_child:
  assumes "\<forall>c w. child E c w \<noteq> None"
  shows "cout (fst (main E w)) = concat (map (\<lambda>i. to_string i @ ''\<newline>'') indices) \<and>
         filter is_report (trace (fst (main E w))) =
           concat (map (\<lambda>i. [Exited (cmd i), Print (to_string i @ ''\<newline>'')]) indices)"
proof (intro conjI)
  have all: "completed E w = 47" by (rule completed_total [OF assms])
  show "cout (fst (main E w)) = concat (map (\<lambda>i. to_string i @ ''\<newline>'') indices)"
    using all by (simp add: main_cout)
  have "filter is_report (trace (fst (main E w))) = concat (map after indices)"
    using all by (simp add: main_trace reports_rounds)
  then show "filter is_report (trace (fst (main E w))) =
           concat (map (\<lambda>i. [Exited (cmd i), Print (to_string i @ ''\<newline>'')]) indices)"
    by (simp add: after_def [abs_def])
qed

text \<open>
  The output of a sweep, written out.
\<close>

theorem index_printed_after_each_child_witness:
  "(\<forall>c w. child env_ok c w \<noteq> None) \<and>
   cout (fst (main env_ok world_fresh)) =
     ''1000\<newline>2000\<newline>3000\<newline>4000\<newline>5000\<newline>6000\<newline>7000\<newline>8000\<newline>9000\<newline>10000\<newline>11000\<newline>12000\<newline>13000\<newline>14000\<newline>15000\<newline>16000\<newline>17000\<newline>18000\<newline>19000\<newline>20000\<newline>21000\<newline>22000\<newline>23000\<newline>24000\<newline>25000\<newline>26000\<newline>27000\<newline>28000\<newline>29000\<newline>30000\<newline>31000\<newline>32000\<newline>33000\<newline>34000\<newline>35000\<newline>36000\<newline>37000\<newline>38000\<newline>39000\<newline>40000\<newline>41000\<newline>42000\<newline>43000\<newline>44000\<newline>45000\<newline>46000\<newline>47000\<newline>'' \<and>
   filter is_report (trace (fst (main env_ok world_fresh))) =
     concat (map (\<lambda>i. [Exited (cmd i), Print (to_string i @ ''\<newline>'')]) indices)"
  using index_printed_after_each_child [of env_ok world_fresh]
  by (simp add: env_ok_def) (simp add: indices_eq eval_string)

text \<open>
  Claim C10, as the code has it. The only path the driver opens is
  \<^verbatim>\<open>./log/20210110_190115_BreakoutNoFrameskip-v4/weights/checkpoint\<close>, once with
  truncation for every child it starts. In the pass for the \<open>k\<close>-th index the driver
  changes the file system it finds (the one its last child left) by \<open>pointer_written\<close>
  and in no other way: every file other than the one the path names is as the pass
  found it, and when the stream has not failed the pointer file holds the text of this
  pass and nothing of what it held before. At the end the file system is the one the
  last child left. Whether a pass rewrites the file depends on the open and the flush,
  which the driver does not test.
\<close>

theorem driver_writes_only_checkpoint:
  assumes "k < length (launched (fst (main E w)))"
    and "x \<noteq> denotes (world_before E w (launched (fst (main E w))) k) checkpoint_path"
  shows "opened (trace (fst (main E w))) =
           replicate (length (launched (fst (main E w)))) checkpoint_path \<and>
         fst (snd (launched (fst (main E w)) ! k)) =
           pointer_written (indices ! k) (world_before E w (launched (fst (main E w))) k) \<and>
         files (fst (snd (launched (fst (main E w)) ! k))) x =
           files (world_before E w (launched (fst (main E w))) k) x \<and>
         (\<not> bad (snd (snd (launched (fst (main E w)) ! k))) \<longrightarrow>
            contents (fst (snd (launched (fst (main E w)) ! k))) checkpoint_path =
              Some (pointer_text (indices ! k))) \<and>
         fs (fst (main E w)) =
           world_before E w (launched (fst (main E w))) (length (launched (fst (main E w))))"
proof (intro conjI)
  show "opened (trace (fst (main E w))) =
      replicate (length (launched (fst (main E w)))) checkpoint_path"
    by (rule main_opened)
  show eq: "fst (snd (launched (fst (main E w)) ! k)) =
      pointer_written (indices ! k) (world_before E w (launched (fst (main E w))) k)"
    by (rule main_worlds [OF assms(1)])
  show "files (fst (snd (launched (fst (main E w)) ! k))) x =
      files (world_before E w (launched (fst (main E w))) k) x"
    unfolding eq using assms(2) by (rule pointer_written_other)
  show "\<not> bad (snd (snd (launched (fst (main E w)) ! k))) \<longrightarrow>
      contents (fst (snd (launched (fst (main E w)) ! k))) checkpoint_path =
        Some (pointer_text (indices ! k))"
    using main_launched_nth [OF assms(1)] by (simp add: launch_ok_def split: prod.splits)
  show "fs (fst (main E w)) =
      world_before E w (launched (fst (main E w))) (length (launched (fst (main E w))))"
    by (rule main_final_world)
qed

text \<open>
  The second pass of a sweep whose children append to a log file, in a file system where
  the pointer file had old contents: the log file and \<^verbatim>\<open>main.py\<close> are as the first child
  left them, and the pointer file, under both of its names, holds the text for index
  2000.
\<close>

theorem driver_writes_only_checkpoint_witness:
  \<open>Suc 0 < length (launched (fst (main env_logging world_used))) \<and>
   2 \<noteq> denotes (world_before env_logging world_used (launched (fst (main env_logging world_used))) (Suc 0)) checkpoint_path \<and>
   opened (trace (fst (main env_logging world_used))) = replicate 47 checkpoint_path \<and>
   files (world_before env_logging world_used (launched (fst (main env_logging world_used))) (Suc 0)) 2 = Some ''episode done\<newline>'' \<and>
   files (fst (snd (launched (fst (main env_logging world_used)) ! Suc 0))) 2 = Some ''episode done\<newline>'' \<and>
   files (fst (snd (launched (fst (main env_logging world_used)) ! Suc 0))) 1 = Some ''import gym'' \<and>
   contents (fst (snd (launched (fst (main env_logging world_used)) ! Suc 0))) checkpoint_path =
     Some ''model_checkpoint_path: "episode_2000" \<newline>all_model_checkpoint_paths: "episode_2000"'' \<and>
   contents (fst (snd (launched (fst (main env_logging world_used)) ! Suc 0)))
       ''log/20210110_190115_BreakoutNoFrameskip-v4/weights/checkpoint'' =
     Some ''model_checkpoint_path: "episode_2000" \<newline>all_model_checkpoint_paths: "episode_2000"''\<close>
proof -
  let ?W = "world_before env_logging world_used (launched (fst (main env_logging world_used))) (Suc 0)"
  have "\<forall>c w. child env_logging c w \<noteq> None"
    by (simp add: env_logging_def)
  then have all: "completed env_logging world_used = 47"
    by (rule completed_total)
  have len: "Suc 0 < length (launched (fst (main env_logging world_used)))"
    by (simp add: main_launched_length all)
  have len47: "length (launched (fst (main env_logging world_used))) = 47"
    by (simp add: main_launched_length all)
  have W: "?W = (pointer_written 1000 world_used)\<lparr>files :=
      (files (pointer_written 1000 world_used))(2 \<mapsto> ''episode done\<newline>'')\<rparr>"
    by (simp add: main_first_launch env_logging_def pointer_written_other world_used_fields
        del: fun_upd_apply)
  have ne2: "2 \<noteq> denotes ?W checkpoint_path"
    unfolding W by (simp add: world_used_fields)
  have ne1: "1 \<noteq> denotes ?W checkpoint_path"
    unfolding W by (simp add: world_used_fields)
  have eqw: "fst (snd (launched (fst (main env_logging world_used)) ! Suc 0)) = pointer_written (indices ! Suc 0) ?W"
    by (rule main_worlds [OF len])
  have wr: "writable (fst (snd (launched (fst (main env_logging world_used)) ! Suc 0))) checkpoint_path"
    unfolding eqw W by (simp add: world_used_fields)
  have rm: "room (fst (snd (launched (fst (main env_logging world_used)) ! Suc 0))) x = None" for x
    unfolding eqw W by (simp add: world_used_fields)
  have good: "\<not> bad (snd (snd (launched (fst (main env_logging world_used)) ! Suc 0)))"
    unfolding launch_ok_bad [OF main_launched_nth [OF len]] by (simp add: wr rm fits_def)
  note two = driver_writes_only_checkpoint [OF len ne2]
  note one = driver_writes_only_checkpoint [OF len ne1]
  have a: "opened (trace (fst (main env_logging world_used))) = replicate 47 checkpoint_path"
    using two [THEN conjunct1] by (simp only: len47)
  have b: "files ?W 2 = Some ''episode done\<newline>''"
    unfolding W by simp
  have c: "files (fst (snd (launched (fst (main env_logging world_used)) ! Suc 0))) 2 = Some ''episode done\<newline>''"
    using two [THEN conjunct2, THEN conjunct2, THEN conjunct1] by (simp only: b)
  have "files ?W 1 = Some ''import gym''"
    unfolding W by (simp add: pointer_written_other world_used_fields)
  with one [THEN conjunct2, THEN conjunct2, THEN conjunct1]
  have d: "files (fst (snd (launched (fst (main env_logging world_used)) ! Suc 0))) 1 = Some ''import gym''"
    by (simp only:)
  have rendered: \<open>pointer_text (indices ! Suc 0) =
      ''model_checkpoint_path: "episode_2000" \<newline>all_model_checkpoint_paths: "episode_2000"''\<close>
    by (simp add: indices_eq pointer_text_def eval_string)
  have e: \<open>contents (fst (snd (launched (fst (main env_logging world_used)) ! Suc 0))) checkpoint_path =
     Some ''model_checkpoint_path: "episode_2000" \<newline>all_model_checkpoint_paths: "episode_2000"''\<close>
    using two [THEN conjunct2, THEN conjunct2, THEN conjunct2, THEN conjunct1] good
    by (simp only: rendered simp_thms)
  have "denotes (fst (snd (launched (fst (main env_logging world_used)) ! Suc 0)))
        ''log/20210110_190115_BreakoutNoFrameskip-v4/weights/checkpoint'' =
      denotes (fst (snd (launched (fst (main env_logging world_used)) ! Suc 0))) checkpoint_path"
    unfolding eqw W by (simp add: world_used_fields)
  with e have f: \<open>contents (fst (snd (launched (fst (main env_logging world_used)) ! Suc 0)))
       ''log/20210110_190115_BreakoutNoFrameskip-v4/weights/checkpoint'' =
     Some ''model_checkpoint_path: "episode_2000" \<newline>all_model_checkpoint_paths: "episode_2000"''\<close>
    by (simp add: contents_def)
  show ?thesis
    by (intro conjI) (rule len, rule ne2, rule a, rule b, rule c, rule d, rule e, rule f)
qed

text \<open>
  Claim C10 as written fails in its second part: not every pass truncates and rewrites
  the file. Where the path cannot be opened, 47 passes call \<^verbatim>\<open>open\<close> and the file exists
  neither when the first child is started nor at the end; and a pointer file left from an
  earlier sweep that cannot be opened still holds its old text when the child for index
  1000 is started.
\<close>

theorem driver_writes_only_checkpoint_counterexample:
  \<open>length (launched (fst (main env_ok world_denied))) = 47 \<and>
   opened (trace (fst (main env_ok world_denied))) = replicate 47 checkpoint_path \<and>
   contents (fst (snd (launched (fst (main env_ok world_denied)) ! 0))) checkpoint_path = None \<and>
   contents (fs (fst (main env_ok world_denied))) checkpoint_path = None \<and>
   contents (fst (snd (launched (fst (main env_ok world_stale)) ! 0))) checkpoint_path =
     Some ''model_checkpoint_path: "episode_47000" \<newline>all_model_checkpoint_paths: "episode_47000"''\<close>
proof -
  have "\<forall>c w. child env_ok c w \<noteq> None"
    by (simp add: env_ok_def)
  then have all: "completed env_ok world_denied = 47"
    by (rule completed_total)
  have a: "length (launched (fst (main env_ok world_denied))) = 47"
    by (simp add: main_launched_length all)
  have b: "opened (trace (fst (main env_ok world_denied))) = replicate 47 checkpoint_path"
    by (simp add: main_opened a)
  have c: "contents (fst (snd (launched (fst (main env_ok world_denied)) ! 0))) checkpoint_path =
      None"
    by (simp add: main_first_launch pointer_written_def contents_def world_denied_def)
  have same: "\<forall>c v. \<exists>a. child env_ok c v = Some (a, v)"
    by (simp add: env_ok_def)
  have "\<not> writable world_denied checkpoint_path"
    by (simp add: world_denied_def)
  from world_before_denied [OF same this, of 47] a
  have "fs (fst (main env_ok world_denied)) = world_denied"
    by (simp add: main_final_world)
  then have d: "contents (fs (fst (main env_ok world_denied))) checkpoint_path = None"
    by (simp add: contents_def world_denied_def)
  have e: \<open>contents (fst (snd (launched (fst (main env_ok world_stale)) ! 0))) checkpoint_path =
     Some ''model_checkpoint_path: "episode_47000" \<newline>all_model_checkpoint_paths: "episode_47000"''\<close>
    by (simp add: main_first_launch pointer_written_def contents_def world_stale_def)
  show ?thesis
    by (intro conjI) (rule a, rule b, rule c, rule d, rule e)
qed

end
